theory Spec2Isabelle
  imports Complex_Main "HOL-Library.Log_Nat"
begin

section \<open>Entity model (models.py)\<close>

text \<open>
  Python floats are modelled as mathematical reals: infinities and NaN are outside the
  model, and so is rounding, but for the one rounding step of \<^verbatim>\<open>%\<close> that can return the
  divisor itself (see \<open>py_mod\<close>). Every numeric field of the source is a \<open>real\<close>; the
  strings of the source (names, status, size) stay strings.

  The class hierarchy \<^verbatim>\<open>CelestialObject\<close> / \<^verbatim>\<open>Satellite\<close> / \<^verbatim>\<open>Debris\<close> is a record with two
  extensions. The private fields \<^verbatim>\<open>_x\<close> and \<^verbatim>\<open>_y\<close> are called \<open>x_pos\<close> and \<open>y_pos\<close>,
  and \<^verbatim>\<open>_size\<close> is called \<open>size_class\<close>.
\<close>

record celestial =
  name :: string
  x_pos :: real
  y_pos :: real
  speed :: real
  angle :: real
  active :: bool

record satellite = celestial +
  fuel :: real
  status :: string

record debris = celestial +
  size_class :: string

text \<open>The three constructors. \<^verbatim>\<open>Satellite.__init__\<close> stores the literal status
  \<^verbatim>\<open>"nominal"\<close> whatever the fuel is; the defaults (fuel 100, size small) are passed
  by the caller.\<close>

definition CelestialObject :: "string \<Rightarrow> real \<Rightarrow> real \<Rightarrow> real \<Rightarrow> real \<Rightarrow> celestial" where
  "CelestialObject n x y v a =
     \<lparr>name = n, x_pos = x, y_pos = y, speed = v, angle = a, active = True\<rparr>"

definition Satellite :: "string \<Rightarrow> real \<Rightarrow> real \<Rightarrow> real \<Rightarrow> real \<Rightarrow> real \<Rightarrow> satellite" where
  "Satellite n x y v a f =
     \<lparr>name = n, x_pos = x, y_pos = y, speed = v, angle = a, active = True,
      fuel = f, status = ''nominal''\<rparr>"

definition Debris :: "string \<Rightarrow> real \<Rightarrow> real \<Rightarrow> real \<Rightarrow> real \<Rightarrow> string \<Rightarrow> debris" where
  "Debris n x y v a sz =
     \<lparr>name = n, x_pos = x, y_pos = y, speed = v, angle = a, active = True,
      size_class = sz\<rparr>"

subsection \<open>CelestialObject\<close>

definition deactivate :: "'a celestial_scheme \<Rightarrow> 'a celestial_scheme" where
  "deactivate obj = obj\<lparr>active := False\<rparr>"

definition radians :: "real \<Rightarrow> real" where
  "radians d = d * pi / 180"

text \<open>\<^verbatim>\<open>CelestialObject.update\<close>: one straight step, nothing when inactive.\<close>

definition celestial_update :: "'a celestial_scheme \<Rightarrow> 'a celestial_scheme" where
  "celestial_update obj =
     (if \<not> active obj then obj
      else let rad = radians (angle obj) in
        obj\<lparr>x_pos := x_pos obj + speed obj * cos rad,
            y_pos := y_pos obj + speed obj * sin rad\<rparr>)"

text \<open>\<^verbatim>\<open>distance_to\<close>: the coordinates are added, as the source does.\<close>

definition distance_to :: "'a celestial_scheme \<Rightarrow> 'b celestial_scheme \<Rightarrow> real" where
  "distance_to obj other =
     sqrt ((x_pos obj + x_pos other)\<^sup>2 + (y_pos obj + y_pos other)\<^sup>2)"

subsection \<open>Satellite\<close>

text \<open>
  Python's \<^verbatim>\<open>%\<close> on floats is C's \<^verbatim>\<open>fmod\<close>, which is exact, followed by one float
  addition of the divisor when the remainder and the divisor differ in sign. That
  addition rounds to the nearest binary64 value (ties to even), and for a tiny
  negative remainder it returns the divisor itself. This one rounding step is modelled;
  results beyond the binary64 range are outside the model.
\<close>

definition truncate_real :: "real \<Rightarrow> int" where
  "truncate_real q = (if 0 \<le> q then \<lfloor>q\<rfloor> else \<lceil>q\<rceil>)"

definition c_fmod :: "real \<Rightarrow> real \<Rightarrow> real" where
  "c_fmod a m = a - m * of_int (truncate_real (a / m))"

text \<open>The exponent \<open>e\<close> of the binade \<open>2 ^ e \<le> \<bar>x\<bar> < 2 ^ (e + 1)\<close> of a non-zero \<open>x\<close>,
  not below the least normal exponent -1022.\<close>

definition binary64_exponent :: "real \<Rightarrow> int" where
  "binary64_exponent x =
     max (if 1 \<le> \<bar>x\<bar> then bitlen \<lfloor>\<bar>x\<bar>\<rfloor> - 1 else - bitlen (\<lceil>1 / \<bar>x\<bar>\<rceil> - 1)) (- 1022)"

definition binary64_ulp :: "real \<Rightarrow> real" where
  "binary64_ulp x = 2 powi (binary64_exponent x - 52)"

definition round_half_even :: "real \<Rightarrow> int" where
  "round_half_even q =
     (let n = \<lfloor>q\<rfloor>; d = q - of_int n in
      if d < 1 / 2 then n else if 1 / 2 < d then n + 1 else if even n then n else n + 1)"

definition round_binary64 :: "real \<Rightarrow> real" where
  "round_binary64 x =
     (if x = 0 then 0 else of_int (round_half_even (x / binary64_ulp x)) * binary64_ulp x)"

definition py_mod :: "real \<Rightarrow> real \<Rightarrow> real" where
  "py_mod a m =
     (let r = c_fmod a m in
      if r \<noteq> 0 then (if (m < 0) \<noteq> (r < 0) then round_binary64 (r + m) else r)
      else 0)"

definition update_status :: "satellite \<Rightarrow> satellite" where
  "update_status s =
     (if fuel s \<le> 0 then s\<lparr>fuel := 0, status := ''critical''\<rparr>
      else if fuel s < 20 then s\<lparr>status := ''warning''\<rparr>
      else s\<lparr>status := ''nominal''\<rparr>)"

definition change_angle :: "real \<Rightarrow> satellite \<Rightarrow> satellite" where
  "change_angle new_angle s =
     (if fuel s \<le> 0 then s
      else update_status (s\<lparr>angle := py_mod new_angle 360, fuel := fuel s - 2\<rparr>))"

definition change_speed :: "real \<Rightarrow> satellite \<Rightarrow> satellite" where
  "change_speed new_speed s =
     (if fuel s \<le> 0 then s
      else update_status (s\<lparr>speed := max 0.5 (min new_speed 5), fuel := fuel s - 1.5\<rparr>))"

text \<open>\<^verbatim>\<open>deorbit\<close> returns its boolean result together with the satellite after the call.\<close>

definition deorbit :: "satellite \<Rightarrow> bool \<times> satellite" where
  "deorbit s =
     (if fuel s \<ge> 5 then (True, deactivate (s\<lparr>status := ''deorbited'', fuel := fuel s - 5\<rparr>))
      else (False, s))"

text \<open>\<^verbatim>\<open>Satellite.update\<close>: the base step, then the passive drain while active.\<close>

definition satellite_update :: "satellite \<Rightarrow> satellite" where
  "satellite_update s =
     (let s1 = celestial_update s in
      if active s1 then update_status (s1\<lparr>fuel := fuel s1 - 0.1\<rparr>) else s1)"

subsection \<open>Debris\<close>

text \<open>\<^verbatim>\<open>radii.get(self._size, 15)\<close>: an unknown size reads as 15.\<close>

definition danger_radius :: "debris \<Rightarrow> real" where
  "danger_radius d =
     (if size_class d = ''small'' then 15
      else if size_class d = ''medium'' then 25
      else if size_class d = ''large'' then 40
      else 15)"

section \<open>Collision detector (simulation.py)\<close>

text \<open>The \<^verbatim>\<open>isinstance\<close> tests of \<^verbatim>\<open>check_collision\<close> need the class of each argument:
  an entity is a plain \<^verbatim>\<open>CelestialObject\<close>, a \<^verbatim>\<open>Satellite\<close> or a \<^verbatim>\<open>Debris\<close>.\<close>

datatype entity = Obj celestial | Sat satellite | Deb debris

definition SATELLITE_RADIUS :: real where
  "SATELLITE_RADIUS = 20"

fun entity_distance :: "entity \<Rightarrow> entity \<Rightarrow> real" where
  "entity_distance (Obj a) (Obj b) = distance_to a b"
| "entity_distance (Obj a) (Sat b) = distance_to a b"
| "entity_distance (Obj a) (Deb b) = distance_to a b"
| "entity_distance (Sat a) (Obj b) = distance_to a b"
| "entity_distance (Sat a) (Sat b) = distance_to a b"
| "entity_distance (Sat a) (Deb b) = distance_to a b"
| "entity_distance (Deb a) (Obj b) = distance_to a b"
| "entity_distance (Deb a) (Sat b) = distance_to a b"
| "entity_distance (Deb a) (Deb b) = distance_to a b"

fun check_collision :: "entity \<Rightarrow> entity \<Rightarrow> bool" where
  "check_collision (Sat s) (Deb d) =
     (entity_distance (Sat s) (Deb d) < SATELLITE_RADIUS + danger_radius d)"
| "check_collision (Deb d) (Sat s) =
     (entity_distance (Deb d) (Sat s) < SATELLITE_RADIUS + danger_radius d)"
| "check_collision (Sat s) (Sat t) =
     (entity_distance (Sat s) (Sat t) < SATELLITE_RADIUS * 2)"
| "check_collision _ _ = False"

definition check_proximity_warning :: "satellite \<Rightarrow> entity \<Rightarrow> real \<Rightarrow> bool" where
  "check_proximity_warning sat obj warning_distance =
     (entity_distance (Sat sat) obj < warning_distance)"

section \<open>Debris generator (models.py)\<close>

text \<open>
  The pseudorandom source is an input: one \<open>draws\<close> value holds what the calls of a
  tick return. \<^verbatim>\<open>random.random()\<close> is a real of \<open>[0, 1)\<close>, \<^verbatim>\<open>random.uniform(a, b)\<close> is
  \<^verbatim>\<open>a + (b - a) * random()\<close>, and \<^verbatim>\<open>random.choice\<close> and \<^verbatim>\<open>random.choices\<close> return the
  element at a drawn index.
\<close>

record draws =
  spawn_roll :: real
  side_pick :: nat
  pos_roll :: real
  angle_roll :: real
  size_pick :: nat
  speed_roll :: real
  name_pick :: nat

definition uniform :: "real \<Rightarrow> real \<Rightarrow> real \<Rightarrow> real" where
  "uniform a b u = a + (b - a) * u"

definition choice :: "'a list \<Rightarrow> nat \<Rightarrow> 'a" where
  "choice xs k = xs ! (k mod length xs)"

text \<open>The decimal text of the counter, as the f-string formats it.\<close>

fun str_nat :: "nat \<Rightarrow> string" where
  "str_nat n =
     (if n < 10 then [''0123456789'' ! n]
      else str_nat (n div 10) @ [''0123456789'' ! (n mod 10)])"

declare str_nat.simps [simp del]

definition DEBRIS_NAMES :: "string list" where
  "DEBRIS_NAMES = [''Alpha'', ''Beta'', ''Gamma'', ''Delta'', ''Epsilon'',
                   ''Zeta'', ''Eta'', ''Theta'', ''Iota'', ''Kappa'']"

record debris_field =
  area_width :: real
  area_height :: real
  counter :: nat

definition DebrisField :: "real \<Rightarrow> real \<Rightarrow> debris_field" where
  "DebrisField w h = \<lparr>area_width = w, area_height = h, counter = 0\<rparr>"

definition generate :: "draws \<Rightarrow> debris_field \<Rightarrow> debris \<times> debris_field" where
  "generate r fld =
     (let side = choice [''top'', ''bottom'', ''left'', ''right''] (side_pick r);
          (x, y, a) =
            (if side = ''top'' then
               (uniform 0 (area_width fld) (pos_roll r), 0, uniform 150 210 (angle_roll r))
             else if side = ''bottom'' then
               (uniform 0 (area_width fld) (pos_roll r), area_height fld,
                uniform (- 30) 30 (angle_roll r))
             else if side = ''left'' then
               (0, uniform 0 (area_height fld) (pos_roll r), uniform (- 45) 45 (angle_roll r))
             else
               (area_width fld, uniform 0 (area_height fld) (pos_roll r),
                uniform 135 225 (angle_roll r)));
          sz = choice [''small'', ''medium'', ''large''] (size_pick r);
          v = uniform 1 3 (speed_roll r);
          n = choice DEBRIS_NAMES (name_pick r) @ ''-'' @ str_nat (counter fld)
      in (Debris n x y v a sz, fld\<lparr>counter := counter fld + 1\<rparr>))"

section \<open>Simulation (simulation.py)\<close>

text \<open>
  The event queue holds formatted French texts in the source. An event is kept here as
  its kind and the names it is formatted from:
  \<^item> \<open>Collision_Debris s d\<close>: \<^verbatim>\<open>COLLISION : s touche par d !\<close>
  \<^item> \<open>Proximity_Alert d s\<close>: \<^verbatim>\<open>ALERTE : d proche de s\<close>
  \<^item> \<open>Collision_Satellites s t\<close>: \<^verbatim>\<open>COLLISION : s et t !\<close>
  \<^item> \<open>Deorbit_Success s\<close>: \<^verbatim>\<open>s desorbite avec succes !\<close>
  \<^item> \<open>Deorbit_Failure s\<close>: \<^verbatim>\<open>s : carburant insuffisant pour desorbiter\<close>
\<close>

datatype event =
    Collision_Debris string string
  | Proximity_Alert string string
  | Collision_Satellites string string
  | Deorbit_Success string
  | Deorbit_Failure string

text \<open>
  The satellites and debris of a simulation are objects that the lists refer to. An
  object is identified here with its position in the owning list: the snapshots of the
  collision pass are lists of positions, and deactivating through a snapshot updates the
  owning list, as the shared reference does. Each position is its own object.
\<close>

record simulation =
  satellites :: "satellite list"
  debris_list :: "debris list"
  the_debris_field :: debris_field
  tick_count :: int
  score :: int
  collisions :: int
  deorbited :: int
  game_over :: bool
  events :: "event list"

definition AREA_WIDTH :: real where
  "AREA_WIDTH = 800"

definition AREA_HEIGHT :: real where
  "AREA_HEIGHT = 600"

definition Simulation :: simulation where
  "Simulation =
     \<lparr>satellites = [], debris_list = [],
      the_debris_field = DebrisField AREA_WIDTH AREA_HEIGHT,
      tick_count = 0, score = 0, collisions = 0, deorbited = 0,
      game_over = False, events = []\<rparr>"

definition pop_events :: "simulation \<Rightarrow> event list \<times> simulation" where
  "pop_events sim = (events sim, sim\<lparr>events := []\<rparr>)"

definition add_satellite :: "satellite \<Rightarrow> simulation \<Rightarrow> simulation" where
  "add_satellite sat sim = sim\<lparr>satellites := satellites sim @ [sat]\<rparr>"

subsection \<open>The collision pass\<close>

text \<open>The body of the satellite-debris loop for satellite \<open>i\<close> and debris \<open>j\<close>.\<close>

definition sat_debris_step :: "nat \<Rightarrow> nat \<Rightarrow> simulation \<Rightarrow> simulation" where
  "sat_debris_step i j sim =
     (let sat = satellites sim ! i; deb = debris_list sim ! j in
      if check_collision (Sat sat) (Deb deb) then
        sim\<lparr>satellites := (satellites sim)[i := deactivate sat],
            debris_list := (debris_list sim)[j := deactivate deb],
            collisions := collisions sim + 1,
            events := events sim @ [Collision_Debris (name sat) (name deb)]\<rparr>
      else if check_proximity_warning sat (Deb deb) 80 then
        sim\<lparr>events := events sim @ [Proximity_Alert (name deb) (name sat)]\<rparr>
      else sim)"

definition sat_debris_loop :: "nat list \<Rightarrow> nat list \<Rightarrow> simulation \<Rightarrow> simulation" where
  "sat_debris_loop active_sats active_debris sim =
     fold (\<lambda>i. fold (\<lambda>j. sat_debris_step i j) active_debris) active_sats sim"

text \<open>The body of the satellite-satellite loop for the satellites \<open>i\<close> and \<open>j\<close>.\<close>

definition sat_sat_step :: "nat \<Rightarrow> nat \<Rightarrow> simulation \<Rightarrow> simulation" where
  "sat_sat_step i j sim =
     (let s = satellites sim ! i; t = satellites sim ! j in
      if check_collision (Sat s) (Sat t) then
        sim\<lparr>satellites := ((satellites sim)[i := deactivate s])[j := deactivate t],
            collisions := collisions sim + 2,
            events := events sim @ [Collision_Satellites (name s) (name t)]\<rparr>
      else sim)"

definition sat_sat_loop :: "nat list \<Rightarrow> simulation \<Rightarrow> simulation" where
  "sat_sat_loop active_sats sim =
     fold (\<lambda>a. fold (\<lambda>b. sat_sat_step (active_sats ! a) (active_sats ! b))
                  [a + 1 ..< length active_sats])
          [0 ..< length active_sats] sim"

text \<open>Both snapshots are taken once, before the first loop.\<close>

definition check_all_collisions :: "simulation \<Rightarrow> simulation" where
  "check_all_collisions sim =
     (let active_sats = filter (\<lambda>i. active (satellites sim ! i)) [0 ..< length (satellites sim)];
          active_debris = filter (\<lambda>j. active (debris_list sim ! j)) [0 ..< length (debris_list sim)]
      in sat_sat_loop active_sats (sat_debris_loop active_sats active_debris sim))"

definition cleanup_out_of_bounds :: "simulation \<Rightarrow> simulation" where
  "cleanup_out_of_bounds sim =
     (let margin = 50 in
      sim\<lparr>debris_list :=
        filter (\<lambda>d. active d \<and> - margin < x_pos d \<and> x_pos d < AREA_WIDTH + margin
                    \<and> - margin < y_pos d \<and> y_pos d < AREA_HEIGHT + margin)
          (debris_list sim)\<rparr>)"

subsection \<open>One tick\<close>

definition spawn_chance :: "int \<Rightarrow> real" where
  "spawn_chance t = min (0.05 + of_int t * 0.0005) 0.3"

definition spawn :: "draws \<Rightarrow> simulation \<Rightarrow> simulation" where
  "spawn r sim =
     (if spawn_roll r < spawn_chance (tick_count sim) then
        (let (d, fld) = generate r (the_debris_field sim) in
         sim\<lparr>debris_list := debris_list sim @ [d], the_debris_field := fld\<rparr>)
      else sim)"

definition tick :: "draws \<Rightarrow> simulation \<Rightarrow> simulation" where
  "tick r sim =
     (if game_over sim then sim
      else
        let s1 = sim\<lparr>tick_count := tick_count sim + 1\<rparr>;
            s2 = s1\<lparr>satellites := map satellite_update (satellites s1)\<rparr>;
            s3 = s2\<lparr>debris_list := map celestial_update (debris_list s2)\<rparr>;
            s4 = spawn r s3;
            s5 = check_all_collisions s4;
            s6 = cleanup_out_of_bounds s5;
            active_sats = filter active (satellites s6);
            s7 = s6\<lparr>score := score s6 + int (length active_sats)\<rparr>
        in if length active_sats = 0 \<and> tick_count s7 > 10
           then s7\<lparr>game_over := True\<rparr> else s7)"

subsection \<open>Deorbiting by name and statistics\<close>

text \<open>The loop of \<^verbatim>\<open>deorbit_satellite\<close> over the positions still to visit: the first
  active satellite of that name decides the result.\<close>

fun deorbit_loop :: "string \<Rightarrow> nat list \<Rightarrow> simulation \<Rightarrow> bool \<times> simulation" where
  "deorbit_loop satellite_name [] sim = (False, sim)"
| "deorbit_loop satellite_name (i # rest) sim =
     (let sat = satellites sim ! i in
      if name sat = satellite_name \<and> active sat then
        (let (ok, sat') = deorbit sat;
             sim1 = sim\<lparr>satellites := (satellites sim)[i := sat']\<rparr>
         in if ok then
              (True, sim1\<lparr>collisions := collisions sim1 + 1,
                          events := events sim1 @ [Deorbit_Success (name sat')]\<rparr>)
            else
              (False, sim1\<lparr>events := events sim1 @ [Deorbit_Failure (name sat')]\<rparr>))
      else deorbit_loop satellite_name rest sim)"

definition deorbit_satellite :: "string \<Rightarrow> simulation \<Rightarrow> bool \<times> simulation" where
  "deorbit_satellite satellite_name sim =
     deorbit_loop satellite_name [0 ..< length (satellites sim)] sim"

text \<open>\<^verbatim>\<open>get_stats\<close> returns a dictionary, kept as the list of its items.\<close>

definition get_stats :: "simulation \<Rightarrow> (string \<times> int) list" where
  "get_stats sim =
     (let act = filter active (satellites sim) in
      [(''tick'', tick_count sim),
       (''score'', score sim),
       (''satellites_actifs'', int (length act)),
       (''collisions'', collisions sim),
       (''desorbites'', deorbited sim),
       (''debris_en_zone'', int (length (debris_list sim)))])"

section \<open>Sequences of operations\<close>

text \<open>The calls a satellite receives: \<^verbatim>\<open>update()\<close>, \<^verbatim>\<open>change_angle(v)\<close>,
  \<^verbatim>\<open>change_speed(v)\<close> and \<^verbatim>\<open>deorbit()\<close> (its result dropped).\<close>

datatype sat_op = Op_Update | Op_Change_Angle real | Op_Change_Speed real | Op_Deorbit

fun apply_sat_op :: "sat_op \<Rightarrow> satellite \<Rightarrow> satellite" where
  "apply_sat_op Op_Update s = satellite_update s"
| "apply_sat_op (Op_Change_Angle v) s = change_angle v s"
| "apply_sat_op (Op_Change_Speed v) s = change_speed v s"
| "apply_sat_op Op_Deorbit s = snd (deorbit s)"

definition run_sat_ops :: "sat_op list \<Rightarrow> satellite \<Rightarrow> satellite" where
  "run_sat_ops ops s = fold apply_sat_op ops s"

text \<open>
  The same calls as the callers of the repository issue them: \<^verbatim>\<open>tick\<close> calls
  \<^verbatim>\<open>update()\<close> on every satellite, while \<^verbatim>\<open>_change_angle\<close> and \<^verbatim>\<open>_change_speed\<close> of
  main\_window.py and \<^verbatim>\<open>deorbit_satellite\<close> of simulation.py call the method under the
  test \<^verbatim>\<open>sat.active\<close>.
\<close>

fun guarded_sat_op :: "sat_op \<Rightarrow> satellite \<Rightarrow> satellite" where
  "guarded_sat_op Op_Update s = satellite_update s"
| "guarded_sat_op (Op_Change_Angle v) s = (if active s then change_angle v s else s)"
| "guarded_sat_op (Op_Change_Speed v) s = (if active s then change_speed v s else s)"
| "guarded_sat_op Op_Deorbit s = (if active s then snd (deorbit s) else s)"

definition run_guarded_ops :: "sat_op list \<Rightarrow> satellite \<Rightarrow> satellite" where
  "run_guarded_ops ops s = fold guarded_sat_op ops s"

text \<open>The status that the thresholds of \<^verbatim>\<open>_update_status\<close> give a fuel level, and the
  satellites whose status is \<^verbatim>\<open>deorbited\<close> or that one.\<close>

definition status_of_fuel :: "real \<Rightarrow> string" where
  "status_of_fuel f =
     (if f \<ge> 20 then ''nominal'' else if 0 < f then ''warning'' else ''critical'')"

definition status_consistent :: "satellite \<Rightarrow> bool" where
  "status_consistent s = (status s = ''deorbited'' \<or> status s = status_of_fuel (fuel s))"

text \<open>
  The calls a simulation receives through its public surface: \<^verbatim>\<open>add_satellite\<close>,
  \<^verbatim>\<open>tick\<close> (with the draws of that tick), \<^verbatim>\<open>deorbit_satellite\<close>, \<^verbatim>\<open>pop_events\<close>,
  \<^verbatim>\<open>get_stats\<close>, and a method call on the satellite at a position of the
  \<^verbatim>\<open>satellites\<close> view.
\<close>

datatype sim_op =
    Add_Satellite satellite
  | Tick draws
  | Deorbit_Satellite string
  | Pop_Events
  | Get_Stats
  | Sat_Call nat sat_op

fun apply_sim_op :: "sim_op \<Rightarrow> simulation \<Rightarrow> simulation" where
  "apply_sim_op (Add_Satellite sat) sim = add_satellite sat sim"
| "apply_sim_op (Tick r) sim = tick r sim"
| "apply_sim_op (Deorbit_Satellite n) sim = snd (deorbit_satellite n sim)"
| "apply_sim_op Pop_Events sim = snd (pop_events sim)"
| "apply_sim_op Get_Stats sim = sim"
| "apply_sim_op (Sat_Call i op) sim =
     (if i < length (satellites sim)
      then sim\<lparr>satellites := (satellites sim)[i := apply_sat_op op (satellites sim ! i)]\<rparr>
      else sim)"

definition run_sim_ops :: "sim_op list \<Rightarrow> simulation \<Rightarrow> simulation" where
  "run_sim_ops ops sim = fold apply_sim_op ops sim"

text \<open>The condition under which \<^verbatim>\<open>tick\<close> sets the game-over flag, read on the state
  at the end of the tick.\<close>

definition all_lost :: "simulation \<Rightarrow> bool" where
  "all_lost sim = (length (filter active (satellites sim)) = 0 \<and> tick_count sim > 10)"

text \<open>Two states agree on the fields that only \<^verbatim>\<open>tick\<close> itself may write.\<close>

definition same_frame :: "simulation \<Rightarrow> simulation \<Rightarrow> bool" where
  "same_frame a b =
     (tick_count b = tick_count a \<and> game_over b = game_over a \<and> deorbited b = deorbited a)"

section \<open>Two scenarios\<close>

text \<open>
  A roster of two resting satellites, 39 apart under the metric of \<^verbatim>\<open>distance_to\<close>,
  and the draws of a tick that spawns the small debris \<^verbatim>\<open>Alpha-0\<close> at the origin of the
  top edge. \<open>pre_pass\<close>, \<open>mid_pass\<close> and \<open>post_pass\<close> are the states of that tick before
  the collision pass, between its two loops and after it.
\<close>

definition sat_A :: satellite where
  "sat_A = Satellite ''A'' 0 0 0 0 100"

definition sat_B :: satellite where
  "sat_B = Satellite ''B'' 39 0 0 0 100"

definition roster :: simulation where
  "roster = add_satellite sat_B (add_satellite sat_A Simulation)"

definition r_spawn :: draws where
  "r_spawn = \<lparr>spawn_roll = 0, side_pick = 0, pos_roll = 0, angle_roll = 0, size_pick = 0,
     speed_roll = 0, name_pick = 0\<rparr>"

definition pre_pass :: simulation where
  "pre_pass =
     \<lparr>satellites =
        [\<lparr>name = ''A'', x_pos = 0, y_pos = 0, speed = 0, angle = 0, active = True,
          fuel = 99.9, status = ''nominal''\<rparr>,
         \<lparr>name = ''B'', x_pos = 39, y_pos = 0, speed = 0, angle = 0, active = True,
          fuel = 99.9, status = ''nominal''\<rparr>],
      debris_list =
        [\<lparr>name = ''Alpha-0'', x_pos = 0, y_pos = 0, speed = 1, angle = 150, active = True,
          size_class = ''small''\<rparr>],
      the_debris_field = \<lparr>area_width = 800, area_height = 600, counter = 1\<rparr>,
      tick_count = 1, score = 0, collisions = 0, deorbited = 0, game_over = False,
      events = []\<rparr>"

definition mid_pass :: simulation where
  "mid_pass =
     \<lparr>satellites =
        [\<lparr>name = ''A'', x_pos = 0, y_pos = 0, speed = 0, angle = 0, active = False,
          fuel = 99.9, status = ''nominal''\<rparr>,
         \<lparr>name = ''B'', x_pos = 39, y_pos = 0, speed = 0, angle = 0, active = True,
          fuel = 99.9, status = ''nominal''\<rparr>],
      debris_list =
        [\<lparr>name = ''Alpha-0'', x_pos = 0, y_pos = 0, speed = 1, angle = 150, active = False,
          size_class = ''small''\<rparr>],
      the_debris_field = \<lparr>area_width = 800, area_height = 600, counter = 1\<rparr>,
      tick_count = 1, score = 0, collisions = 1, deorbited = 0, game_over = False,
      events = [Collision_Debris ''A'' ''Alpha-0'', Proximity_Alert ''Alpha-0'' ''B'']\<rparr>"

definition post_pass :: simulation where
  "post_pass = mid_pass\<lparr>satellites :=
        [\<lparr>name = ''A'', x_pos = 0, y_pos = 0, speed = 0, angle = 0, active = False,
          fuel = 99.9, status = ''nominal''\<rparr>,
         \<lparr>name = ''B'', x_pos = 39, y_pos = 0, speed = 0, angle = 0, active = False,
          fuel = 99.9, status = ''nominal''\<rparr>],
       collisions := 3,
       events := [Collision_Debris ''A'' ''Alpha-0'', Proximity_Alert ''Alpha-0'' ''B'',
                  Collision_Satellites ''A'' ''B'']\<rparr>"

text \<open>The draws of a tick that spawns nothing.\<close>

definition r_quiet :: draws where
  "r_quiet = \<lparr>spawn_roll = 1, side_pick = 0, pos_roll = 0, angle_roll = 0, size_pick = 0,
     speed_roll = 0, name_pick = 0\<rparr>"

section \<open>The distance and the collision predicates\<close>

text \<open>
  Claim C1. \<^verbatim>\<open>distance_to\<close> is the square root of the squared sums of the coordinates
  (the coordinates are added, not subtracted), and every collision test and the
  proximity test compare exactly this quantity with their threshold.
\<close>

theorem distance_to_sums_coordinates:
  "distance_to a b = sqrt ((x_pos a + x_pos b)\<^sup>2 + (y_pos a + y_pos b)\<^sup>2)
   \<and> check_collision (Sat s) (Deb d)
       = (sqrt ((x_pos s + x_pos d)\<^sup>2 + (y_pos s + y_pos d)\<^sup>2) < 20 + danger_radius d)
   \<and> check_collision (Deb d) (Sat s)
       = (sqrt ((x_pos d + x_pos s)\<^sup>2 + (y_pos d + y_pos s)\<^sup>2) < 20 + danger_radius d)
   \<and> check_collision (Sat s) (Sat t)
       = (sqrt ((x_pos s + x_pos t)\<^sup>2 + (y_pos s + y_pos t)\<^sup>2) < 40)
   \<and> check_proximity_warning s (Deb d) w
       = (sqrt ((x_pos s + x_pos d)\<^sup>2 + (y_pos s + y_pos d)\<^sup>2) < w)
   \<and> check_proximity_warning s (Sat t) w
       = (sqrt ((x_pos s + x_pos t)\<^sup>2 + (y_pos s + y_pos t)\<^sup>2) < w)
   \<and> check_proximity_warning s (Obj c) w
       = (sqrt ((x_pos s + x_pos c)\<^sup>2 + (y_pos s + y_pos c)\<^sup>2) < w)"
  by (simp add: distance_to_def check_proximity_warning_def SATELLITE_RADIUS_def)

text \<open>
  Claim C10. Two debris never collide, wherever they are; a pair that collides is a
  satellite with a debris (in either order) or two satellites.
\<close>

theorem debris_never_collide:
  "\<not> check_collision (Deb d) (Deb e)
   \<and> (check_collision a b \<longrightarrow>
        (\<exists>s d. a = Sat s \<and> b = Deb d) \<or> (\<exists>d s. a = Deb d \<and> b = Sat s)
        \<or> (\<exists>s t. a = Sat s \<and> b = Sat t))"
  by (cases a; cases b) simp_all

theorem debris_never_collide_witness:
  "\<not> check_collision (Deb (Debris ''Alpha-0'' 0 0 1 150 ''large''))
        (Deb (Debris ''Beta-1'' 0 0 2 150 ''large''))
   \<and> check_collision (Sat (Satellite ''S'' 0 0 0 0 100))
        (Deb (Debris ''Alpha-0'' 0 0 1 150 ''large''))"
  using debris_never_collide [of "Debris ''Alpha-0'' 0 0 1 150 ''large''"
          "Debris ''Beta-1'' 0 0 2 150 ''large''" "Sat (Satellite ''S'' 0 0 0 0 100)"
          "Deb (Debris ''Alpha-0'' 0 0 1 150 ''large'')"]
  by (simp add: distance_to_def SATELLITE_RADIUS_def danger_radius_def Satellite_def Debris_def)

section \<open>The satellite's control operations\<close>

text \<open>
  Claim C3. \<^verbatim>\<open>deorbit()\<close> returns true exactly when the fuel before the call is at
  least 5; then the satellite is inactive, its status is \<^verbatim>\<open>deorbited\<close> and its fuel is
  5 less, every other field as before. Otherwise it returns false and the satellite is
  unchanged.
\<close>

theorem deorbit_iff_fuel:
  "fst (deorbit s) = (fuel s \<ge> 5)
   \<and> (fuel s \<ge> 5 \<longrightarrow>
        deorbit s = (True, s\<lparr>active := False, fuel := fuel s - 5, status := ''deorbited''\<rparr>))
   \<and> (\<not> fuel s \<ge> 5 \<longrightarrow> deorbit s = (False, s))"
  by (simp add: deorbit_def deactivate_def)

theorem deorbit_iff_fuel_witness:
  "fst (deorbit (Satellite ''ISS'' 200 300 1.5 45 80)) = ((5::real) \<le> 80)
   \<and> deorbit (Satellite ''ISS'' 200 300 1.5 45 80)
       = (True, \<lparr>name = ''ISS'', x_pos = 200, y_pos = 300, speed = 1.5, angle = 45,
                 active = False, fuel = 75, status = ''deorbited''\<rparr>)
   \<and> deorbit (Satellite ''X'' 1 2 3 4 3) = (False, Satellite ''X'' 1 2 3 4 3)"
  using deorbit_iff_fuel [of "Satellite ''ISS'' 200 300 1.5 45 80"]
        deorbit_iff_fuel [of "Satellite ''X'' 1 2 3 4 3"]
  by (simp add: Satellite_def)

text \<open>
  Claim C8. \<^verbatim>\<open>change_speed(v)\<close> changes nothing when the fuel is at most 0. Otherwise
  the speed becomes \<open>v\<close> clamped to \<open>[0.5, 5]\<close>, the fuel loses 1.5 and is set to 0 when
  that is not positive, and the status is recomputed from it. With fuel 1 and \<open>v = 3\<close>
  the result has speed 3, fuel 0 and status \<^verbatim>\<open>critical\<close>; the fuel after the call is
  never negative when the fuel before it was not.
\<close>

theorem change_speed_spec:
  "(fuel s \<le> 0 \<longrightarrow> change_speed v s = s)
   \<and> (0 < fuel s \<longrightarrow>
        change_speed v s =
          s\<lparr>speed := max 0.5 (min v 5),
            fuel := (if fuel s - 1.5 \<le> 0 then 0 else fuel s - 1.5),
            status := (if fuel s - 1.5 \<le> 0 then ''critical''
                       else if fuel s - 1.5 < 20 then ''warning'' else ''nominal'')\<rparr>
        \<and> 0 \<le> fuel (change_speed v s))
   \<and> (0 \<le> fuel s \<longrightarrow> 0 \<le> fuel (change_speed v s))
   \<and> (fuel s = 1 \<longrightarrow>
        speed (change_speed 3 s) = 3 \<and> fuel (change_speed 3 s) = 0
        \<and> status (change_speed 3 s) = ''critical'')"
  by (simp add: change_speed_def update_status_def)

theorem change_speed_spec_witness:
  "change_speed 3 (Satellite ''S'' 0 0 1 0 1)
     = \<lparr>name = ''S'', x_pos = 0, y_pos = 0, speed = 3, angle = 0, active = True,
        fuel = 0, status = ''critical''\<rparr>
   \<and> change_speed 3 (Satellite ''S'' 0 0 1 0 0) = Satellite ''S'' 0 0 1 0 0"
  using change_speed_spec [of "Satellite ''S'' 0 0 1 0 1" 3]
        change_speed_spec [of "Satellite ''S'' 0 0 1 0 0" 3]
  by (simp add: Satellite_def)

section \<open>Fuel and status under sequences of calls\<close>

lemma update_status_fuel_nonneg: "0 \<le> fuel (update_status s)"
  by (simp add: update_status_def)

lemma update_status_consistent: "status (update_status s) = status_of_fuel (fuel (update_status s))"
  by (simp add: update_status_def status_of_fuel_def)

lemma apply_sat_op_fuel_nonneg: "0 \<le> fuel s \<Longrightarrow> 0 \<le> fuel (apply_sat_op op s)"
  by (cases op)
     (simp_all add: satellite_update_def celestial_update_def change_angle_def change_speed_def
        deorbit_def deactivate_def update_status_fuel_nonneg Let_def)

lemma apply_sat_op_consistent: "status_consistent s \<Longrightarrow> status_consistent (apply_sat_op op s)"
  by (cases op)
     (simp_all add: satellite_update_def celestial_update_def change_angle_def change_speed_def
        deorbit_def deactivate_def update_status_consistent status_consistent_def Let_def)

lemma run_sat_ops_fuel_nonneg: "0 \<le> fuel s \<Longrightarrow> 0 \<le> fuel (run_sat_ops ops s)"
  unfolding run_sat_ops_def
  by (induction ops arbitrary: s) (simp_all add: apply_sat_op_fuel_nonneg)

lemma run_sat_ops_consistent: "status_consistent s \<Longrightarrow> status_consistent (run_sat_ops ops s)"
  unfolding run_sat_ops_def
  by (induction ops arbitrary: s) (simp_all add: apply_sat_op_consistent)

lemma apply_sat_op_effect:
  "apply_sat_op op s = s \<or> status_consistent (apply_sat_op op s)"
proof (cases op)
  case Op_Update
  show ?thesis
  proof (cases "active s")
    case True
    then show ?thesis
      by (simp add: Op_Update satellite_update_def celestial_update_def status_consistent_def
          update_status_consistent Let_def)
  next
    case False
    then show ?thesis by (simp add: Op_Update satellite_update_def celestial_update_def)
  qed
next
  case (Op_Change_Angle v)
  then show ?thesis
    by (simp add: change_angle_def status_consistent_def update_status_consistent)
next
  case (Op_Change_Speed v)
  then show ?thesis
    by (simp add: change_speed_def status_consistent_def update_status_consistent)
next
  case Op_Deorbit
  then show ?thesis
    by (simp add: deorbit_def deactivate_def status_consistent_def)
qed

lemma run_sat_ops_effect:
  "run_sat_ops ops s = s \<or> status_consistent (run_sat_ops ops s)"
proof (induction ops arbitrary: s)
  case Nil
  then show ?case by (simp add: run_sat_ops_def)
next
  case (Cons op ops)
  have step: "run_sat_ops (op # ops) s = run_sat_ops ops (apply_sat_op op s)"
    by (simp add: run_sat_ops_def)
  show ?case
  proof (cases "apply_sat_op op s = s")
    case True
    then show ?thesis using Cons.IH [of s] by (simp add: step)
  next
    case False
    then have "status_consistent (apply_sat_op op s)"
      using apply_sat_op_effect [of op s] by simp
    then have "status_consistent (run_sat_ops ops (apply_sat_op op s))"
      by (rule run_sat_ops_consistent)
    then show ?thesis by (simp add: step)
  qed
qed

text \<open>
  Claim C2, as the code has it. A satellite constructed with fuel at least 0 has fuel
  at least 0 after every sequence of \<^verbatim>\<open>update\<close>, \<^verbatim>\<open>change_angle\<close>, \<^verbatim>\<open>change_speed\<close> and
  \<^verbatim>\<open>deorbit\<close> calls. Whenever its status is not \<^verbatim>\<open>deorbited\<close>, the status is the one
  its fuel determines (\<^verbatim>\<open>nominal\<close> from 20 on, \<^verbatim>\<open>warning\<close> strictly between 0 and 20,
  \<^verbatim>\<open>critical\<close> at 0), unless the satellite was constructed with fuel below 20 and is
  still exactly as constructed, no call having changed it.
\<close>

theorem fuel_status_invariant:
  assumes "0 \<le> f"
  shows "0 \<le> fuel (run_sat_ops ops (Satellite n x y v a f))
         \<and> (status (run_sat_ops ops (Satellite n x y v a f)) \<noteq> ''deorbited'' \<longrightarrow>
              \<not> (f < 20 \<and> run_sat_ops ops (Satellite n x y v a f) = Satellite n x y v a f) \<longrightarrow>
              status (run_sat_ops ops (Satellite n x y v a f))
                = (if fuel (run_sat_ops ops (Satellite n x y v a f)) \<ge> 20 then ''nominal''
                   else if 0 < fuel (run_sat_ops ops (Satellite n x y v a f)) then ''warning''
                   else ''critical''))"
proof -
  let ?s0 = "Satellite n x y v a f"
  have "0 \<le> fuel ?s0"
    using assms by (simp add: Satellite_def)
  then have nonneg: "0 \<le> fuel (run_sat_ops ops ?s0)"
    by (rule run_sat_ops_fuel_nonneg)
  have init: "status_consistent ?s0" if "20 \<le> f"
    using that by (simp add: status_consistent_def status_of_fuel_def Satellite_def)
  have "status_consistent (run_sat_ops ops ?s0)"
    if "\<not> (f < 20 \<and> run_sat_ops ops ?s0 = ?s0)"
  proof (cases "run_sat_ops ops ?s0 = ?s0")
    case True
    then have "20 \<le> f" using that by simp
    then show ?thesis using init True by simp
  next
    case False
    then show ?thesis using run_sat_ops_effect [of ops ?s0] by simp
  qed
  with nonneg show ?thesis
    by (auto simp: status_consistent_def status_of_fuel_def)
qed

theorem fuel_status_invariant_witness:
  "let s = run_sat_ops [Op_Deorbit, Op_Change_Speed 3, Op_Update] (Satellite ''S'' 0 0 1 0 3)
   in (0::real) \<le> 3 \<and> 0 \<le> fuel s \<and> status s \<noteq> ''deorbited''
      \<and> s \<noteq> Satellite ''S'' 0 0 1 0 3
      \<and> status s = ''warning'' \<and> fuel s = 1.4"
  using fuel_status_invariant [of 3 "[Op_Deorbit, Op_Change_Speed 3, Op_Update]" "''S''" 0 0 1 0]
  by (simp add: run_sat_ops_def Satellite_def deorbit_def change_speed_def
        satellite_update_def celestial_update_def update_status_def Let_def)

text \<open>A satellite constructed with fuel 3 is \<^verbatim>\<open>nominal\<close>, and a refused \<^verbatim>\<open>deorbit()\<close>
  leaves it so.\<close>

theorem fuel_status_counterexample:
  "\<not> (let s = run_sat_ops [Op_Deorbit] (Satellite ''S'' 0 0 1 0 3)
       in 0 \<le> fuel s
          \<and> (status s \<noteq> ''deorbited'' \<longrightarrow>
               (fuel s \<ge> 20 \<longrightarrow> status s = ''nominal'')
               \<and> (0 < fuel s \<and> fuel s < 20 \<longrightarrow> status s = ''warning'')
               \<and> (fuel s = 0 \<longrightarrow> status s = ''critical'')))"
  by (simp add: run_sat_ops_def Satellite_def deorbit_def)

section \<open>The heading angle\<close>

subsection \<open>The remainder and its one rounding step\<close>




text \<open>\<open>binary64_exponent\<close> is the exponent of the binade of its argument.\<close>

lemma binade_of_large:
  fixes y :: real
  assumes "1 \<le> y"
  shows "2 powi (bitlen \<lfloor>y\<rfloor> - 1) \<le> y \<and> y < 2 powi (bitlen \<lfloor>y\<rfloor> - 1 + 1)"
proof -
  define n where "n = \<lfloor>y\<rfloor>"
  have pos: "0 < n" using assms unfolding n_def by simp
  have b1: "1 \<le> bitlen n" using pos bitlen_eq_zero_iff [of n] bitlen_nonneg [of n] by linarith
  have bounds: "2 ^ nat (bitlen n - 1) \<le> n" "n < 2 ^ nat (bitlen n)"
    using bitlen_bounds [OF pos] by simp_all
  have "(2::real) powi (bitlen n - 1) = 2 ^ nat (bitlen n - 1)"
    using b1 by (simp add: power_int_def)
  also have "\<dots> = of_int (2 ^ nat (bitlen n - 1))" by simp
  also have "\<dots> \<le> of_int n" using bounds(1) by linarith
  also have "\<dots> \<le> y" by (simp add: n_def)
  finally have lo: "2 powi (bitlen n - 1) \<le> y" .
  have "n + 1 \<le> 2 ^ nat (bitlen n)" using bounds(2) by simp
  then have "real_of_int (n + 1) \<le> of_int (2 ^ nat (bitlen n))" by linarith
  moreover have "y < of_int (n + 1)" unfolding n_def by linarith
  ultimately have "y < (2::real) ^ nat (bitlen n)" by simp
  moreover have "(2::real) powi (bitlen n - 1 + 1) = 2 ^ nat (bitlen n)"
    using b1 by (simp add: power_int_def)
  ultimately have hi: "y < 2 powi (bitlen n - 1 + 1)" by simp
  show ?thesis using lo hi by (simp add: n_def)
qed

lemma binade_of_small:
  fixes y :: real
  assumes "0 < y" "y < 1"
  shows "2 powi (- bitlen (\<lceil>1 / y\<rceil> - 1)) \<le> y \<and> y < 2 powi (- bitlen (\<lceil>1 / y\<rceil> - 1) + 1)"
proof -
  define n where "n = \<lceil>1 / y\<rceil> - 1"
  have "1 < 1 / y" using assms by simp
  then have pos: "0 < n" unfolding n_def by (simp add: less_ceiling_iff)
  have b1: "1 \<le> bitlen n" using pos bitlen_eq_zero_iff [of n] bitlen_nonneg [of n] by linarith
  have bounds: "2 ^ nat (bitlen n - 1) \<le> n" "n < 2 ^ nat (bitlen n)"
    using bitlen_bounds [OF pos] by simp_all
  have up: "1 / y \<le> of_int (n + 1)"
    using ceiling_correct [of "1 / y"] unfolding n_def by simp
  have dn: "of_int n < 1 / y"
    using ceiling_correct [of "1 / y"] unfolding n_def by simp
  have "n + 1 \<le> 2 ^ nat (bitlen n)" using bounds(2) by simp
  then have "real_of_int (n + 1) \<le> of_int (2 ^ nat (bitlen n))" by linarith
  then have "1 / y \<le> 2 ^ nat (bitlen n)" using up by simp
  then have "1 \<le> 2 ^ nat (bitlen n) * y" using assms(1) by (simp add: pos_divide_le_eq)
  then have "1 / 2 ^ nat (bitlen n) \<le> y" by (simp add: pos_divide_le_eq mult.commute)
  moreover have "(2::real) powi (- bitlen n) = 1 / 2 ^ nat (bitlen n)"
    using b1 by (simp add: power_int_def field_simps)
  ultimately have lo: "2 powi (- bitlen n) \<le> y" by simp
  have "real_of_int (2 ^ nat (bitlen n - 1)) \<le> of_int n" using bounds(1) by linarith
  then have "(2::real) ^ nat (bitlen n - 1) \<le> of_int n" by simp
  then have "2 ^ nat (bitlen n - 1) < 1 / y" using dn by linarith
  then have "2 ^ nat (bitlen n - 1) * y < 1" using assms(1) by (simp add: pos_less_divide_eq)
  then have "y < 1 / 2 ^ nat (bitlen n - 1)" by (simp add: pos_less_divide_eq mult.commute)
  moreover have "(2::real) powi (- bitlen n + 1) = 1 / 2 ^ nat (bitlen n - 1)"
  proof -
    have "- bitlen n + 1 = - (bitlen n - 1)" by simp
    then have "(2::real) powi (- bitlen n + 1) = 1 / 2 powi (bitlen n - 1)"
      by (simp only: power_int_minus_divide)
    then show ?thesis using b1 by (simp add: power_int_def)
  qed
  ultimately have hi: "y < 2 powi (- bitlen n + 1)" by simp
  show ?thesis using lo hi by (simp add: n_def)
qed

lemma binary64_exponent_binade:
  assumes "2 powi (- 1022) \<le> \<bar>x\<bar>"
  shows "2 powi binary64_exponent x \<le> \<bar>x\<bar> \<and> \<bar>x\<bar> < 2 powi (binary64_exponent x + 1)"
proof -
  define e where "e = (if 1 \<le> \<bar>x\<bar> then bitlen \<lfloor>\<bar>x\<bar>\<rfloor> - 1 else - bitlen (\<lceil>1 / \<bar>x\<bar>\<rceil> - 1))"
  have "(0::real) < 2 powi (- 1022)" by simp
  then have pos: "0 < \<bar>x\<bar>" using assms by linarith
  have b: "2 powi e \<le> \<bar>x\<bar> \<and> \<bar>x\<bar> < 2 powi (e + 1)"
    using binade_of_large [of "\<bar>x\<bar>"] binade_of_small [of "\<bar>x\<bar>"] pos
    by (cases "1 \<le> \<bar>x\<bar>") (simp_all add: e_def)
  then have "(2::real) powi (- 1022) < 2 powi (e + 1)" using assms by linarith
  then have "- 1022 < e + 1"
    using power_int_increasing [of "e + 1" "- 1022" "2::real"] by (cases "- 1022 < e + 1") simp_all
  then have "binary64_exponent x = e" by (simp add: binary64_exponent_def e_def max_def)
  then show ?thesis using b by simp
qed


lemma binary64_exponent_ge: "- 1022 \<le> binary64_exponent x"
  by (simp add: binary64_exponent_def)






subsection \<open>The angle of an entity\<close>











section \<open>The status after a deorbit\<close>

lemma guarded_sat_op_inactive: "\<not> active s \<Longrightarrow> guarded_sat_op op s = s"
  by (cases op) (simp_all add: satellite_update_def celestial_update_def)

lemma run_guarded_ops_inactive: "\<not> active s \<Longrightarrow> run_guarded_ops ops s = s"
  unfolding run_guarded_ops_def
  by (induction ops) (simp_all add: guarded_sat_op_inactive)

text \<open>
  Claim C4, as the code has it. After a successful \<^verbatim>\<open>deorbit()\<close> the status is
  \<^verbatim>\<open>deorbited\<close>, and it stays so under every sequence of \<^verbatim>\<open>update()\<close> calls and of
  \<^verbatim>\<open>change_angle\<close> and \<^verbatim>\<open>change_speed\<close> calls made under the callers' test
  \<^verbatim>\<open>sat.active\<close>: such a sequence leaves the satellite unchanged. The methods
  themselves do not test the flag.
\<close>

theorem deorbited_sticky_guarded:
  "fst (deorbit s) \<longrightarrow>
     status (snd (deorbit s)) = ''deorbited''
     \<and> run_guarded_ops ops (snd (deorbit s)) = snd (deorbit s)
     \<and> status (run_guarded_ops ops (snd (deorbit s))) = ''deorbited''"
proof
  assume ok: "fst (deorbit s)"
  then have f: "fuel s \<ge> 5" by (simp add: deorbit_def split: if_splits)
  have st: "status (snd (deorbit s)) = ''deorbited''"
    using f by (simp add: deorbit_def deactivate_def)
  have "\<not> active (snd (deorbit s))"
    using f by (simp add: deorbit_def deactivate_def)
  then have "run_guarded_ops ops (snd (deorbit s)) = snd (deorbit s)"
    by (rule run_guarded_ops_inactive)
  with st show "status (snd (deorbit s)) = ''deorbited''
     \<and> run_guarded_ops ops (snd (deorbit s)) = snd (deorbit s)
     \<and> status (run_guarded_ops ops (snd (deorbit s))) = ''deorbited''"
    by simp
qed

theorem deorbited_sticky_guarded_witness:
  "fst (deorbit (Satellite ''S'' 0 0 1 0 100))
   \<and> status (run_guarded_ops [Op_Update, Op_Change_Angle 10, Op_Change_Speed 2]
        (snd (deorbit (Satellite ''S'' 0 0 1 0 100)))) = ''deorbited''"
  using deorbited_sticky_guarded [of "Satellite ''S'' 0 0 1 0 100"
          "[Op_Update, Op_Change_Angle 10, Op_Change_Speed 2]"]
  by (simp add: Satellite_def deorbit_def)

text \<open>Called directly on a deorbited satellite with fuel left, \<^verbatim>\<open>change_angle\<close>
  recomputes the status from the fuel.\<close>

theorem deorbited_sticky_counterexample:
  "fst (deorbit (Satellite ''S'' 0 0 1 0 100))
   \<and> status (snd (deorbit (Satellite ''S'' 0 0 1 0 100))) = ''deorbited''
   \<and> status (run_sat_ops [Op_Change_Angle 10] (snd (deorbit (Satellite ''S'' 0 0 1 0 100))))
       = ''nominal''"
  by (simp add: Satellite_def deorbit_def deactivate_def run_sat_ops_def change_angle_def update_status_def)

section \<open>What a tick and the other calls leave alone\<close>

lemma sat_debris_step_frame:
  "tick_count (sat_debris_step i j sim) = tick_count sim
   \<and> game_over (sat_debris_step i j sim) = game_over sim
   \<and> deorbited (sat_debris_step i j sim) = deorbited sim"
  by (simp add: sat_debris_step_def Let_def)

lemma sat_sat_step_frame:
  "tick_count (sat_sat_step i j sim) = tick_count sim
   \<and> game_over (sat_sat_step i j sim) = game_over sim
   \<and> deorbited (sat_sat_step i j sim) = deorbited sim"
  by (simp add: sat_sat_step_def Let_def)

lemma fold_same_frame:
  "(\<And>x s. same_frame s (f x s)) \<Longrightarrow> same_frame sim (fold f xs sim)"
proof (induction xs arbitrary: sim)
  case Nil
  show ?case by (simp add: same_frame_def)
next
  case (Cons x xs)
  have "same_frame sim (f x sim)" by (rule Cons.prems)
  moreover have "same_frame (f x sim) (fold f xs (f x sim))"
    by (rule Cons.IH) (rule Cons.prems)
  ultimately show ?case by (simp add: same_frame_def)
qed

lemma sat_debris_loop_frame: "same_frame sim (sat_debris_loop ss ds sim)"
  unfolding sat_debris_loop_def
  by (intro fold_same_frame) (simp add: same_frame_def sat_debris_step_frame)

lemma sat_sat_loop_frame: "same_frame sim (sat_sat_loop ss sim)"
  unfolding sat_sat_loop_def
  by (intro fold_same_frame) (simp add: same_frame_def sat_sat_step_frame)

lemma check_all_collisions_frame: "same_frame sim (check_all_collisions sim)"
  using sat_debris_loop_frame sat_sat_loop_frame
  by (simp add: check_all_collisions_def Let_def same_frame_def)

lemma spawn_frame: "same_frame sim (spawn r sim)"
  by (simp add: spawn_def same_frame_def split: prod.splits)

lemma cleanup_frame: "same_frame sim (cleanup_out_of_bounds sim)"
  by (simp add: cleanup_out_of_bounds_def same_frame_def)

lemma tick_game_over: "game_over sim \<Longrightarrow> tick r sim = sim"
  by (simp add: tick_def)

lemma tick_running:
  assumes "\<not> game_over sim"
  shows "tick_count (tick r sim) = tick_count sim + 1"
    and "game_over (tick r sim) = all_lost (tick r sim)"
    and "deorbited (tick r sim) = deorbited sim"
proof -
  define s3 where "s3 = sim\<lparr>tick_count := tick_count sim + 1,
      satellites := map satellite_update (satellites sim),
      debris_list := map celestial_update (debris_list sim)\<rparr>"
  define s6 where "s6 = cleanup_out_of_bounds (check_all_collisions (spawn r s3))"
  have fr: "same_frame s3 s6"
    using spawn_frame [of s3 r] check_all_collisions_frame [of "spawn r s3"]
      cleanup_frame [of "check_all_collisions (spawn r s3)"]
    by (simp add: s6_def same_frame_def)
  have t: "tick r sim =
      (if length (filter active (satellites s6)) = 0 \<and> tick_count s6 > 10
       then s6\<lparr>score := score s6 + int (length (filter active (satellites s6))), game_over := True\<rparr>
       else s6\<lparr>score := score s6 + int (length (filter active (satellites s6)))\<rparr>)"
    using assms by (simp add: tick_def Let_def s6_def s3_def)
  have s3: "tick_count s3 = tick_count sim + 1" "game_over s3 = False" "deorbited s3 = deorbited sim"
    using assms by (simp_all add: s3_def)
  show "tick_count (tick r sim) = tick_count sim + 1"
    using fr s3 by (simp add: t same_frame_def)
  show "game_over (tick r sim) = all_lost (tick r sim)"
    using fr s3 by (simp add: t same_frame_def all_lost_def)
  show "deorbited (tick r sim) = deorbited sim"
    using fr s3 by (simp add: t same_frame_def)
qed

lemma deorbit_loop_frame: "same_frame sim (snd (deorbit_loop n is sim))"
  by (induction "is") (simp_all add: same_frame_def Let_def split: prod.splits)

lemma deorbit_satellite_frame: "same_frame sim (snd (deorbit_satellite n sim))"
  by (simp add: deorbit_satellite_def deorbit_loop_frame)

lemma deorbit_loop_collisions:
  "fst (deorbit_loop n is sim) \<Longrightarrow>
   collisions (snd (deorbit_loop n is sim)) = collisions sim + 1"
  by (induction "is") (simp_all add: Let_def split: prod.splits if_splits)

lemma non_tick_frame: "\<forall>r. op \<noteq> Tick r \<Longrightarrow> same_frame sim (apply_sim_op op sim)"
  using deorbit_satellite_frame [of sim]
  by (cases op) (simp_all add: same_frame_def add_satellite_def pop_events_def)

lemma apply_sim_op_deorbited: "deorbited (apply_sim_op op sim) = deorbited sim"
proof (cases "\<exists>r. op = Tick r")
  case True
  then obtain r where "op = Tick r" by blast
  then show ?thesis
    using tick_running(3) [of sim r] tick_game_over [of sim r] by (cases "game_over sim") simp_all
next
  case False
  then show ?thesis using non_tick_frame [of op sim] by (simp add: same_frame_def)
qed

lemma run_sim_ops_deorbited: "deorbited (run_sim_ops ops sim) = deorbited sim"
  unfolding run_sim_ops_def
  by (induction ops arbitrary: sim) (simp_all add: apply_sim_op_deorbited)

section \<open>The deorbit counter\<close>

text \<open>
  Claim C9. No call changes the deorbit counter: after every sequence of calls on a new
  simulation it is 0, and \<^verbatim>\<open>get_stats\<close> reports 0 under \<^verbatim>\<open>desorbites\<close>. A successful
  \<^verbatim>\<open>deorbit_satellite\<close> adds 1 to the collision counter instead.
\<close>

theorem deorbit_counter_dead:
  "deorbited (run_sim_ops ops Simulation) = 0
   \<and> map_of (get_stats (run_sim_ops ops Simulation)) ''desorbites'' = Some 0
   \<and> deorbited (apply_sim_op op sim) = deorbited sim
   \<and> (fst (deorbit_satellite n sim) \<longrightarrow>
        collisions (snd (deorbit_satellite n sim)) = collisions sim + 1
        \<and> deorbited (snd (deorbit_satellite n sim)) = deorbited sim)"
proof -
  have a: "deorbited (run_sim_ops ops Simulation) = 0"
    by (simp add: run_sim_ops_deorbited Simulation_def)
  have b: "map_of (get_stats (run_sim_ops ops Simulation)) ''desorbites'' = Some 0"
    using a by (simp add: get_stats_def Let_def)
  have c: "deorbited (apply_sim_op op sim) = deorbited sim"
    by (rule apply_sim_op_deorbited)
  have d: "collisions (snd (deorbit_satellite n sim)) = collisions sim + 1"
    if "fst (deorbit_satellite n sim)"
    using that deorbit_loop_collisions by (simp add: deorbit_satellite_def)
  have e: "deorbited (snd (deorbit_satellite n sim)) = deorbited sim"
    using deorbit_satellite_frame [of sim n] by (simp add: same_frame_def)
  show ?thesis using a b c d e by blast
qed

theorem deorbit_counter_dead_witness:
  "fst (deorbit_satellite ''ISS'' (add_satellite (Satellite ''ISS'' 200 300 1.5 45 80) Simulation))
   \<and> collisions (snd (deorbit_satellite ''ISS''
        (add_satellite (Satellite ''ISS'' 200 300 1.5 45 80) Simulation))) = 1
   \<and> deorbited (run_sim_ops [Add_Satellite (Satellite ''ISS'' 200 300 1.5 45 80),
        Deorbit_Satellite ''ISS''] Simulation) = 0"
  using deorbit_counter_dead [of "[Add_Satellite (Satellite ''ISS'' 200 300 1.5 45 80),
        Deorbit_Satellite ''ISS'']" "Deorbit_Satellite ''ISS''"
        "add_satellite (Satellite ''ISS'' 200 300 1.5 45 80) Simulation" "''ISS''"]
  by (simp add: deorbit_satellite_def add_satellite_def Simulation_def Satellite_def deorbit_def
      deactivate_def Let_def)

section \<open>Game over\<close>

lemma apply_sim_op_game_over_mono: "game_over sim \<Longrightarrow> game_over (apply_sim_op op sim)"
proof (cases "\<exists>r. op = Tick r")
  case True
  assume "game_over sim"
  then show ?thesis using True tick_game_over by auto
next
  case False
  assume "game_over sim"
  then show ?thesis using non_tick_frame [of op sim] False by (simp add: same_frame_def)
qed

lemma run_sim_ops_snoc: "run_sim_ops (ops @ [op]) sim = apply_sim_op op (run_sim_ops ops sim)"
  by (simp add: run_sim_ops_def)

lemma run_game_over_iff:
  "\<not> game_over sim \<Longrightarrow>
   game_over (run_sim_ops ops sim) =
     (\<exists>k<length ops. (\<exists>r. ops ! k = Tick r) \<and> all_lost (run_sim_ops (take (Suc k) ops) sim))"
proof (induction ops rule: rev_induct)
  case Nil
  then show ?case by (simp add: run_sim_ops_def)
next
  case (snoc op ops)
  let ?S = "run_sim_ops ops sim"
  let ?P = "\<lambda>os k. (\<exists>r. os ! k = Tick r) \<and> all_lost (run_sim_ops (take (Suc k) os) sim)"
  have IH: "game_over ?S = (\<exists>k<length ops. ?P ops k)"
    using snoc by simp
  have old: "?P (ops @ [op]) k = ?P ops k" if "k < length ops" for k
    using that by (simp add: nth_append)
  have last: "?P (ops @ [op]) (length ops) =
      ((\<exists>r. op = Tick r) \<and> all_lost (apply_sim_op op ?S))"
    by (simp add: run_sim_ops_snoc)
  have ex_Suc: "(\<exists>k<Suc n. Q k) = ((\<exists>k<n. Q k) \<or> Q n)" for n :: nat and Q
    by (auto simp: less_Suc_eq)
  have "(\<exists>k<length (ops @ [op]). ?P (ops @ [op]) k) =
      ((\<exists>k<length ops. ?P (ops @ [op]) k) \<or> ?P (ops @ [op]) (length ops))"
    using ex_Suc [of "length ops" "?P (ops @ [op])"] by simp
  also have "(\<exists>k<length ops. ?P (ops @ [op]) k) = (\<exists>k<length ops. ?P ops k)"
    using old by blast
  finally have split: "(\<exists>k<length (ops @ [op]). ?P (ops @ [op]) k) =
      ((\<exists>k<length ops. ?P ops k) \<or> ?P (ops @ [op]) (length ops))" .
  have step: "run_sim_ops (ops @ [op]) sim = apply_sim_op op ?S"
    by (rule run_sim_ops_snoc)
  have "game_over (apply_sim_op op ?S) =
      ((\<exists>k<length ops. ?P ops k) \<or> ((\<exists>r. op = Tick r) \<and> all_lost (apply_sim_op op ?S)))"
  proof (cases "game_over ?S")
    case True
    then have "game_over (apply_sim_op op ?S)" by (rule apply_sim_op_game_over_mono)
    moreover have "\<exists>k<length ops. ?P ops k" using True IH by blast
    ultimately show ?thesis by blast
  next
    case False
    have "game_over (apply_sim_op op ?S) = ((\<exists>r. op = Tick r) \<and> all_lost (apply_sim_op op ?S))"
    proof (cases "\<exists>r. op = Tick r")
      case True
      then obtain r where "op = Tick r" by blast
      then show ?thesis using tick_running(2) [OF False, of r] by simp
    next
      case nt: False
      then show ?thesis using non_tick_frame [of op ?S] False by (simp add: same_frame_def)
    qed
    moreover have "\<not> (\<exists>k<length ops. ?P ops k)" using False IH by blast
    ultimately show ?thesis by blast
  qed
  then show ?case
    unfolding step split last .
qed

text \<open>
  Claim C6. A tick of a finished game changes nothing. A tick of a running game adds 1
  to the tick counter and ends with the flag set exactly when, at its end, no satellite
  is active and the counter is above 10; so the flag is never set by one of the first ten
  ticks. Over every sequence of calls on a new simulation, the flag is set exactly when
  some tick of the sequence ended in such a state.
\<close>

theorem game_over_transition:
  "(game_over sim \<longrightarrow> tick r sim = sim)
   \<and> (\<not> game_over sim \<longrightarrow>
        tick_count (tick r sim) = tick_count sim + 1
        \<and> game_over (tick r sim)
            = (length (filter active (satellites (tick r sim))) = 0
               \<and> tick_count (tick r sim) > 10))
   \<and> (\<not> game_over sim \<and> tick_count sim < 10 \<longrightarrow> \<not> game_over (tick r sim))
   \<and> game_over (run_sim_ops ops Simulation)
       = (\<exists>k<length ops. (\<exists>r. ops ! k = Tick r)
            \<and> length (filter active (satellites (run_sim_ops (take (Suc k) ops) Simulation))) = 0
            \<and> tick_count (run_sim_ops (take (Suc k) ops) Simulation) > 10)"
proof -
  have a: "game_over sim \<longrightarrow> tick r sim = sim"
    by (simp add: tick_game_over)
  have b: "\<not> game_over sim \<longrightarrow>
        tick_count (tick r sim) = tick_count sim + 1
        \<and> game_over (tick r sim)
            = (length (filter active (satellites (tick r sim))) = 0
               \<and> tick_count (tick r sim) > 10)"
    using tick_running(1,2) [of sim r] by (simp add: all_lost_def)
  have c: "\<not> game_over sim \<and> tick_count sim < 10 \<longrightarrow> \<not> game_over (tick r sim)"
    using b by simp
  have "\<not> game_over Simulation" by (simp add: Simulation_def)
  then have d: "game_over (run_sim_ops ops Simulation)
       = (\<exists>k<length ops. (\<exists>r. ops ! k = Tick r)
            \<and> length (filter active (satellites (run_sim_ops (take (Suc k) ops) Simulation))) = 0
            \<and> tick_count (run_sim_ops (take (Suc k) ops) Simulation) > 10)"
    using run_game_over_iff [of Simulation ops] by (simp add: all_lost_def)
  show ?thesis using a b c d by blast
qed

lemma quiet_tick:
  "\<not> game_over sim \<Longrightarrow> satellites sim = [] \<Longrightarrow> debris_list sim = [] \<Longrightarrow>
   tick r_quiet sim =
     (if tick_count sim + 1 > 10 then sim\<lparr>tick_count := tick_count sim + 1, game_over := True\<rparr>
      else sim\<lparr>tick_count := tick_count sim + 1\<rparr>)"
  apply (simp add: tick_def Let_def spawn_def spawn_chance_def r_quiet_def check_all_collisions_def
      sat_debris_loop_def sat_sat_loop_def cleanup_out_of_bounds_def)
  done

theorem game_over_transition_witness:
  "\<not> game_over (Simulation\<lparr>tick_count := 9\<rparr>)
   \<and> tick r_quiet (Simulation\<lparr>tick_count := 9\<rparr>) = Simulation\<lparr>tick_count := 10\<rparr>
   \<and> tick r_quiet (Simulation\<lparr>tick_count := 10\<rparr>)
        = Simulation\<lparr>tick_count := 11, game_over := True\<rparr>
   \<and> tick r_quiet (Simulation\<lparr>tick_count := 11, game_over := True\<rparr>)
        = Simulation\<lparr>tick_count := 11, game_over := True\<rparr>
   \<and> \<not> game_over (run_sim_ops [Tick r_quiet] Simulation)"
  using game_over_transition [of "Simulation\<lparr>tick_count := 11, game_over := True\<rparr>" r_quiet "[Tick r_quiet]"]
    game_over_transition [of "Simulation\<lparr>tick_count := 10\<rparr>" r_quiet "[]"]
    game_over_transition [of "Simulation\<lparr>tick_count := 9\<rparr>" r_quiet "[]"]
  by (simp add: quiet_tick Simulation_def run_sim_ops_def)

section \<open>A satellite deactivated twice in one tick\<close>

lemma sqrt_less_iff_sq: "0 \<le> c \<Longrightarrow> (sqrt a < c) = (a < c\<^sup>2)"
proof -
  assume c: "0 \<le> c"
  have "(sqrt a < c) = (sqrt a < sqrt (c\<^sup>2))" using c by simp
  also have "\<dots> = (a < c\<^sup>2)" by (rule real_sqrt_less_iff)
  finally show ?thesis .
qed
lemma scenario_generate: "generate r_spawn (DebrisField 800 600) =
   (\<lparr>name = ''Alpha-0'', x_pos = 0, y_pos = 0, speed = 1, angle = 150, active = True,
          size_class = ''small''\<rparr>, \<lparr>area_width = 800, area_height = 600, counter = 1\<rparr>)"
  by (simp add: generate_def r_spawn_def DebrisField_def choice_def uniform_def DEBRIS_NAMES_def
      str_nat.simps Debris_def Let_def)

lemma scenario_pre_pass: "spawn r_spawn
     (roster\<lparr>tick_count := 1, satellites := map satellite_update (satellites roster),
        debris_list := map celestial_update (debris_list roster)\<rparr>) = pre_pass"
  by (simp add: spawn_def spawn_chance_def scenario_generate [unfolded r_spawn_def] roster_def add_satellite_def Simulation_def
      AREA_WIDTH_def AREA_HEIGHT_def sat_A_def sat_B_def Satellite_def satellite_update_def
      celestial_update_def update_status_def pre_pass_def r_spawn_def Let_def)

lemma scenario_snapshots: "filter (\<lambda>i. active (satellites pre_pass ! i)) [0 ..< length (satellites pre_pass)] = [0, 1]"
  "filter (\<lambda>j. active (debris_list pre_pass ! j)) [0 ..< length (debris_list pre_pass)] = [0]"
  by (simp_all add: pre_pass_def upt_rec)

lemma scenario_first_loop: "sat_debris_loop [0, 1] [0] pre_pass = mid_pass"
  by (simp add: sat_debris_loop_def sat_debris_step_def pre_pass_def mid_pass_def
      check_proximity_warning_def distance_to_def SATELLITE_RADIUS_def danger_radius_def
      deactivate_def sqrt_less_iff_sq Let_def)
lemma scenario_second_loop: "sat_sat_loop [0, 1] mid_pass = post_pass"
  by (simp add: sat_sat_loop_def sat_sat_step_def mid_pass_def post_pass_def
      distance_to_def SATELLITE_RADIUS_def deactivate_def sqrt_less_iff_sq Let_def upt_rec)

lemma scenario_tick: "tick r_spawn roster = post_pass\<lparr>debris_list := []\<rparr>"
proof -
  have ng: "\<not> game_over roster" by (simp add: roster_def add_satellite_def Simulation_def)
  have tc: "tick_count roster + 1 = 1" by (simp add: roster_def add_satellite_def Simulation_def)
  have "check_all_collisions pre_pass = post_pass"
    by (simp only: check_all_collisions_def scenario_snapshots scenario_first_loop scenario_second_loop Let_def)
  then show ?thesis
    using ng scenario_pre_pass tc
    by (simp add: tick_def Let_def cleanup_out_of_bounds_def post_pass_def mid_pass_def)
qed

text \<open>
  Claim C7. On the roster of \<open>sat_A\<close> and \<open>sat_B\<close>, reached by two \<^verbatim>\<open>add_satellite\<close>
  calls, the tick with the draws \<open>r_spawn\<close> takes the snapshot of both satellites,
  deactivates \<open>A\<close> in the satellite-debris loop and collides the inactive \<open>A\<close> with
  \<open>B\<close> in the satellite-satellite loop over the same snapshot: two collision events name
  \<open>A\<close> and the collision counter grows by 3.
\<close>

theorem double_deactivation_in_one_tick:
  "roster = run_sim_ops [Add_Satellite sat_A, Add_Satellite sat_B] Simulation
   \<and> spawn r_spawn
        (roster\<lparr>tick_count := 1, satellites := map satellite_update (satellites roster),
           debris_list := map celestial_update (debris_list roster)\<rparr>) = pre_pass
   \<and> filter (\<lambda>i. active (satellites pre_pass ! i)) [0 ..< length (satellites pre_pass)] = [0, 1]
   \<and> filter (\<lambda>j. active (debris_list pre_pass ! j)) [0 ..< length (debris_list pre_pass)] = [0]
   \<and> sat_debris_loop [0, 1] [0] pre_pass = mid_pass
   \<and> \<not> active (satellites mid_pass ! 0)
   \<and> check_collision (Sat (satellites mid_pass ! 0)) (Sat (satellites mid_pass ! 1))
   \<and> sat_sat_loop [0, 1] mid_pass = post_pass
   \<and> check_all_collisions pre_pass = post_pass
   \<and> tick r_spawn roster = post_pass\<lparr>debris_list := []\<rparr>
   \<and> collisions (tick r_spawn roster) = collisions roster + 3
   \<and> events (tick r_spawn roster) =
        [Collision_Debris ''A'' ''Alpha-0'', Proximity_Alert ''Alpha-0'' ''B'',
         Collision_Satellites ''A'' ''B'']
   \<and> map active (satellites (tick r_spawn roster)) = [False, False]"
proof -
  have r: "roster = run_sim_ops [Add_Satellite sat_A, Add_Satellite sat_B] Simulation"
    by (simp add: roster_def run_sim_ops_def)
  have m: "\<not> active (satellites mid_pass ! 0)" by (simp add: mid_pass_def)
  have c: "check_collision (Sat (satellites mid_pass ! 0)) (Sat (satellites mid_pass ! 1))"
    by (simp add: mid_pass_def distance_to_def SATELLITE_RADIUS_def sqrt_less_iff_sq)
  have ca: "check_all_collisions pre_pass = post_pass"
    by (simp only: check_all_collisions_def scenario_snapshots scenario_first_loop scenario_second_loop Let_def)
  have k0: "collisions roster = 0"
    by (simp add: roster_def add_satellite_def Simulation_def)
  have "collisions (tick r_spawn roster) = 3"
    by (simp add: scenario_tick post_pass_def)
  with k0 have k: "collisions (tick r_spawn roster) = collisions roster + 3"
    by simp
  have e: "events (tick r_spawn roster) =
        [Collision_Debris ''A'' ''Alpha-0'', Proximity_Alert ''Alpha-0'' ''B'',
         Collision_Satellites ''A'' ''B'']"
    by (simp add: scenario_tick post_pass_def)
  have a: "map active (satellites (tick r_spawn roster)) = [False, False]"
    by (simp add: scenario_tick post_pass_def)
  show ?thesis
    using r scenario_pre_pass scenario_snapshots scenario_first_loop m c scenario_second_loop ca scenario_tick k e a by blast
qed

end
